theory Spec2Isabelle
  imports Main "HOL-Library.Sublist"
begin

section \<open>Python values, exceptions and external calls\<close>

text \<open>
  The backend is one Python module (\<^verbatim>\<open>main.py\<close>): a startup hook \<^verbatim>\<open>lifespan\<close> that fills three
  module-level handles, and one request handler \<^verbatim>\<open>analyze_code\<close>.

  Python strings are modelled as \<open>string\<close>, one \<open>char\<close> standing for one character of the
  Python string, so that \<^verbatim>\<open>payload.code[:512]\<close> is \<open>take 512\<close>.

  The values that the scanner and the provider SDKs hand back are dynamically typed; they are
  modelled by a small universe of Python values. An object carries the name of its class, its
  data attributes and the result of \<^verbatim>\<open>str()\<close> on it.
\<close>

datatype pyval =
    PyNone
  | PyStr string
  | PyList "pyval list"
  | PyDict "(string \<times> pyval) list"
  | PyObj pyobj
and pyobj =
    Obj (cls: string) (attrs: "(string \<times> pyval) list") (str_form: string)

text \<open>
  Exceptions are values. Only subclasses of \<^verbatim>\<open>Exception\<close> are modelled (what a
  \<^verbatim>\<open>except Exception\<close> clause catches): FastAPI's \<^verbatim>\<open>HTTPException(status_code, detail)\<close>, and any
  other exception, given by its class name and the result of \<^verbatim>\<open>str(e)\<close>.
\<close>

datatype exn =
    HTTPException nat string
  | PyException string string

text \<open>
  Everything the module does to the outside (calls of the scanner, of the SDK constructors and
  of the provider clients, log lines) is recorded as a list of events, in program order.
\<close>

datatype event =
    PipelineCall string string
  | GenaiClientCall string
  | GroqCtorCall string
  | ScannerCall string
  | GroqCall "(string \<times> string) list list" string
  | GeminiCall string string
  | LogInfo string
  | LogWarning string
  | LogException string "exn option"

text \<open>
  An external call runs in a world \<open>'w\<close> (the network, the provider's side, any source of
  randomness), which it may read and change; it returns a value or raises.
\<close>

type_synonym ('w, 'a) ext = "'w \<Rightarrow> (exn + 'a) \<times> 'w"

type_synonym 'w scanner = "string \<Rightarrow> ('w, pyval) ext"
type_synonym 'w gemini = "string \<Rightarrow> string \<Rightarrow> ('w, pyobj) ext"
type_synonym 'w groq = "(string \<times> string) list list \<Rightarrow> string \<Rightarrow> ('w, pyobj) ext"

subsection \<open>Attribute access, indexing and \<^verbatim>\<open>dict.get\<close>\<close>

fun type_name :: "pyval \<Rightarrow> string" where
  "type_name PyNone = ''NoneType''"
| "type_name (PyStr s) = ''str''"
| "type_name (PyList xs) = ''list''"
| "type_name (PyDict d) = ''dict''"
| "type_name (PyObj ob) = cls ob"

definition attribute_error :: "pyval \<Rightarrow> string \<Rightarrow> exn" where
  "attribute_error v name =
     PyException ''AttributeError''
       ([CHR 0x27] @ type_name v @ [CHR 0x27] @ '' object has no attribute '' @
        [CHR 0x27] @ name @ [CHR 0x27])"

text \<open>
  \<^verbatim>\<open>v.name\<close> for the attribute names the handler reads (\<^verbatim>\<open>choices\<close>, \<^verbatim>\<open>message\<close>, \<^verbatim>\<open>content\<close>,
  \<^verbatim>\<open>text\<close>): none of them is an attribute of \<^verbatim>\<open>None\<close>, a string, a list or a dict.
\<close>

fun py_getattr :: "pyval \<Rightarrow> string \<Rightarrow> exn + pyval" where
  "py_getattr (PyObj ob) name =
     (case map_of (attrs ob) name of
        Some x \<Rightarrow> Inr x
      | None \<Rightarrow> Inl (attribute_error (PyObj ob) name))"
| "py_getattr v name = Inl (attribute_error v name)"

text \<open>\<^verbatim>\<open>v[0]\<close>.\<close>

fun py_getitem0 :: "pyval \<Rightarrow> exn + pyval" where
  "py_getitem0 (PyList []) = Inl (PyException ''IndexError'' ''list index out of range'')"
| "py_getitem0 (PyList (x # xs)) = Inr x"
| "py_getitem0 (PyStr []) = Inl (PyException ''IndexError'' ''string index out of range'')"
| "py_getitem0 (PyStr (c # cs)) = Inr (PyStr [c])"
| "py_getitem0 (PyDict d) = Inl (PyException ''KeyError'' ''0'')"
| "py_getitem0 v =
     Inl (PyException ''TypeError''
            ([CHR 0x27] @ type_name v @ [CHR 0x27] @ '' object is not subscriptable''))"

text \<open>
  \<^verbatim>\<open>v.get(key, default)\<close>: the method of a dict. An object of the model has data attributes
  only, so an attribute \<^verbatim>\<open>get\<close> of it cannot be called.
\<close>

fun py_get :: "pyval \<Rightarrow> string \<Rightarrow> pyval \<Rightarrow> exn + pyval" where
  "py_get (PyDict d) key dflt =
     (case map_of d key of Some x \<Rightarrow> Inr x | None \<Rightarrow> Inr dflt)"
| "py_get (PyObj ob) key dflt =
     (case map_of (attrs ob) ''get'' of
        Some x \<Rightarrow>
          Inl (PyException ''TypeError''
                 ([CHR 0x27] @ type_name x @ [CHR 0x27] @ '' object is not callable''))
      | None \<Rightarrow> Inl (attribute_error (PyObj ob) ''get''))"
| "py_get v key dflt = Inl (attribute_error v ''get'')"

text \<open>Sequencing of steps that may raise: the first exception ends the sequence.\<close>

fun and_then :: "exn + 'a \<Rightarrow> ('a \<Rightarrow> exn + 'b) \<Rightarrow> exn + 'b" where
  "and_then (Inl e) f = Inl e"
| "and_then (Inr x) f = f x"

section \<open>Module state\<close>

text \<open>
  The three module-level handles (\<^verbatim>\<open>security_scanner\<close>, \<^verbatim>\<open>gemini_client\<close>, \<^verbatim>\<open>groq_client\<close>),
  each \<^verbatim>\<open>None\<close> when the module is loaded.
\<close>

record 'w globals =
  security_scanner :: "'w scanner option"
  gemini_client :: "'w gemini option"
  groq_client :: "'w groq option"

definition initial_globals :: "'w globals" where
  "initial_globals = \<lparr>security_scanner = None, gemini_client = None, groq_client = None\<rparr>"

text \<open>
  What the module finds when it is loaded and started: the three optional imports
  (\<^verbatim>\<open>pipeline\<close>, \<^verbatim>\<open>genai\<close>, \<^verbatim>\<open>Groq\<close>, each \<^verbatim>\<open>None\<close> when its import failed) and the process
  environment read by \<^verbatim>\<open>os.getenv\<close>. \<open>genai\<close> stands for \<^verbatim>\<open>genai.Client\<close>.
\<close>

record 'w runtime =
  pipeline :: "(string \<Rightarrow> string \<Rightarrow> ('w, 'w scanner) ext) option"
  genai :: "(string \<Rightarrow> ('w, 'w gemini) ext) option"
  Groq :: "(string \<Rightarrow> ('w, 'w groq) ext) option"
  getenv :: "string \<Rightarrow> string option"

text \<open>The request body \<^verbatim>\<open>CodePayload\<close> and the dict the handler returns.\<close>

record CodePayload =
  code :: string
  model :: string

record response =
  security_score :: string
  analysis :: pyval


section \<open>Steps that run external calls\<close>

text \<open>
  A step yields a value or an exception, the events it produced and the world it leaves.
  \<open>then_step\<close> runs a second step after a first one that did not raise.
\<close>

type_synonym ('w, 'a) step = "(exn + 'a) \<times> event list \<times> 'w"

definition then_step :: "('w, 'a) step \<Rightarrow> ('a \<Rightarrow> 'w \<Rightarrow> ('w, 'b) step) \<Rightarrow> ('w, 'b) step" where
  "then_step r f =
     (case r of
        (Inl e, ev, w) \<Rightarrow> (Inl e, ev, w)
      | (Inr x, ev, w) \<Rightarrow> (case f x w of (r', ev', w') \<Rightarrow> (r', ev @ ev', w')))"

section \<open>Startup: \<^verbatim>\<open>lifespan\<close>\<close>

text \<open>
  The scanner block. Its guard is \<^verbatim>\<open>if False and pipeline is not None\<close>; the \<^verbatim>\<open>else\<close> branch
  only logs and leaves \<^verbatim>\<open>security_scanner\<close> as it is.
\<close>

definition init_scanner :: "'w runtime \<Rightarrow> 'w globals \<Rightarrow> 'w \<Rightarrow> ('w, 'w globals) step" where
  "init_scanner rt g w =
     (if False \<and> pipeline rt \<noteq> None then
        (case pipeline rt of
           Some pl \<Rightarrow>
             (case pl ''text-classification''
                      ''mrm8488/codebert-base-finetuned-detect-insecure-code'' w of
                (Inr sc, w') \<Rightarrow>
                  (Inr (g\<lparr>security_scanner := Some sc\<rparr>),
                   [LogInfo ''Loading Hugging Face security model... this may take a moment'',
                    PipelineCall ''text-classification''
                      ''mrm8488/codebert-base-finetuned-detect-insecure-code''], w')
              | (Inl e, w') \<Rightarrow>
                  (Inr (g\<lparr>security_scanner := None\<rparr>),
                   [LogInfo ''Loading Hugging Face security model... this may take a moment'',
                    PipelineCall ''text-classification''
                      ''mrm8488/codebert-base-finetuned-detect-insecure-code'',
                    LogException ''Failed to load security scanner: %s'' (Some e)], w'))
         | None \<Rightarrow> (Inr g, [], w))
      else
        (Inr g,
         [LogWarning ''transformers.pipeline not available; security scanner disabled''], w))"

text \<open>
  The Gemini block: \<^verbatim>\<open>if genai is not None and gemini_key\<close>, where an empty key is false.
  A constructor that raises is caught by \<^verbatim>\<open>except Exception\<close>.
\<close>

definition init_gemini :: "'w runtime \<Rightarrow> 'w globals \<Rightarrow> 'w \<Rightarrow> ('w, 'w globals) step" where
  "init_gemini rt g w =
     (let gemini_key = getenv rt ''GEMINI_API_KEY'' in
      case genai rt of
        Some client \<Rightarrow>
          (case gemini_key of
             Some key \<Rightarrow>
               if key \<noteq> [] then
                 (case client key w of
                    (Inr c, w') \<Rightarrow>
                      (Inr (g\<lparr>gemini_client := Some c\<rparr>), [GenaiClientCall key], w')
                  | (Inl e, w') \<Rightarrow>
                      (Inr (g\<lparr>gemini_client := None\<rparr>),
                       [GenaiClientCall key,
                        LogException ''Failed to initialize Gemini client: %s'' (Some e)], w'))
               else
                 (Inr g, [LogWarning ''GEMINI_API_KEY not set; Gemini client disabled''], w)
           | None \<Rightarrow>
               (Inr g, [LogWarning ''GEMINI_API_KEY not set; Gemini client disabled''], w))
      | None \<Rightarrow>
          (Inr g, [LogWarning ''google-genai SDK not installed; Gemini client disabled''], w))"

definition init_groq :: "'w runtime \<Rightarrow> 'w globals \<Rightarrow> 'w \<Rightarrow> ('w, 'w globals) step" where
  "init_groq rt g w =
     (let groq_key = getenv rt ''GROQ_API_KEY'' in
      case Groq rt of
        Some ctor \<Rightarrow>
          (case groq_key of
             Some key \<Rightarrow>
               if key \<noteq> [] then
                 (case ctor key w of
                    (Inr c, w') \<Rightarrow>
                      (Inr (g\<lparr>groq_client := Some c\<rparr>), [GroqCtorCall key], w')
                  | (Inl e, w') \<Rightarrow>
                      (Inr (g\<lparr>groq_client := None\<rparr>),
                       [GroqCtorCall key,
                        LogException ''Failed to initialize Groq client: %s'' (Some e)], w'))
               else
                 (Inr g, [LogWarning ''GROQ_API_KEY not set; Groq client disabled''], w)
           | None \<Rightarrow>
               (Inr g, [LogWarning ''GROQ_API_KEY not set; Groq client disabled''], w))
      | None \<Rightarrow>
          (Inr g, [LogWarning ''groq SDK not installed; Groq client disabled''], w))"

text \<open>The part of \<^verbatim>\<open>lifespan\<close> before \<^verbatim>\<open>yield\<close>, and the part after it.\<close>

definition lifespan_startup :: "'w runtime \<Rightarrow> 'w globals \<Rightarrow> 'w \<Rightarrow> ('w, 'w globals) step" where
  "lifespan_startup rt g w =
     then_step (then_step (init_scanner rt g w) (init_gemini rt)) (init_groq rt)"

definition lifespan_shutdown :: "'w \<Rightarrow> ('w, unit) step" where
  "lifespan_shutdown w = (Inr (), [LogInfo ''Shutting down OptiCode backend''], w)"

section \<open>The handler: \<^verbatim>\<open>analyze_code\<close>\<close>

text \<open>
  Step A. \<open>scan_try\<close> is the body of the inner \<^verbatim>\<open>try\<close>; \<open>scoring\<close> is the whole
  \<^verbatim>\<open>if\<close>/\<^verbatim>\<open>else\<close>, whose \<^verbatim>\<open>except Exception\<close> turns every exception of the body into
  \<^verbatim>\<open>"unknown"\<close>.
\<close>

definition scan_try :: "'w scanner \<Rightarrow> CodePayload \<Rightarrow> 'w \<Rightarrow> ('w, string) step" where
  "scan_try scanner payload w =
     (case scanner (take 512 (code payload)) w of
        (r, w') \<Rightarrow>
          (and_then r (\<lambda>hf_result.
             and_then (py_getitem0 hf_result) (\<lambda>first.
               and_then (py_get first ''label'' (PyStr [])) (\<lambda>raw_label.
                 Inr (if raw_label = PyStr ''LABEL_1'' then ''insecure'' else ''secure'')))),
           [ScannerCall (take 512 (code payload))], w'))"

definition scoring :: "'w globals \<Rightarrow> CodePayload \<Rightarrow> 'w \<Rightarrow> ('w, string) step" where
  "scoring g payload w =
     (case security_scanner g of
        Some scanner \<Rightarrow>
          if code payload \<noteq> [] then
            (case scan_try scanner payload w of
               (Inr status, ev, w') \<Rightarrow> (Inr status, ev, w')
             | (Inl e, ev, w') \<Rightarrow>
                 (Inr ''unknown'',
                  ev @ [LogException ''Security scanner failed during analysis'' None], w'))
          else (Inr ''unknown'', [], w)
      | None \<Rightarrow> (Inr ''unknown'', [], w))"

text \<open>Step B: the f-string, with its line breaks and indentation.\<close>

definition prompt :: "string \<Rightarrow> string \<Rightarrow> string" where
  "prompt status c =
     [CHR 0x0A] @
     ''        Review this code which the scanner marked as '' @ status @ ''.'' @ [CHR 0x0A] @
     ''        Provide a brief bug report and then the fully optimized version.'' @ [CHR 0x0A] @
     ''        '' @ [CHR 0x0A] @
     ''        CODE:'' @ [CHR 0x0A] @
     ''        '' @ c @ [CHR 0x0A] @
     ''        ''"

text \<open>
  Step C. The Groq branch reads \<^verbatim>\<open>chat_completion.choices[0].message.content\<close>; the Gemini
  branch reads \<^verbatim>\<open>getattr(response, 'text', str(response))\<close>.
\<close>

definition groq_text :: "pyobj \<Rightarrow> exn + pyval" where
  "groq_text chat_completion =
     and_then (py_getattr (PyObj chat_completion) ''choices'') (\<lambda>choices.
       and_then (py_getitem0 choices) (\<lambda>choice.
         and_then (py_getattr choice ''message'') (\<lambda>message.
           py_getattr message ''content'')))"

definition gemini_text :: "pyobj \<Rightarrow> pyval" where
  "gemini_text response =
     (case map_of (attrs response) ''text'' of
        Some t \<Rightarrow> t
      | None \<Rightarrow> PyStr (str_form response))"

definition dispatch :: "'w globals \<Rightarrow> CodePayload \<Rightarrow> string \<Rightarrow> 'w \<Rightarrow> ('w, pyval) step" where
  "dispatch g payload p w =
     (if model payload = ''groq'' then
        (case groq_client g of
           None \<Rightarrow> (Inl (HTTPException 503 ''Groq client not available''), [], w)
         | Some client \<Rightarrow>
             (case client [[(''role'', ''user''), (''content'', p)]]
                          ''llama-3.3-70b-versatile'' w of
                (r, w') \<Rightarrow>
                  (and_then r groq_text,
                   [GroqCall [[(''role'', ''user''), (''content'', p)]]
                      ''llama-3.3-70b-versatile''], w')))
      else
        (case gemini_client g of
           None \<Rightarrow> (Inl (HTTPException 503 ''Gemini client not available''), [], w)
         | Some client \<Rightarrow>
             (case client ''gemini-2.0-flash'' p w of
                (r, w') \<Rightarrow>
                  (and_then r (\<lambda>response. Inr (gemini_text response)),
                   [GeminiCall ''gemini-2.0-flash'' p], w'))))"

text \<open>The body of the outer \<^verbatim>\<open>try\<close>: steps A to C and the returned dict.\<close>

definition analyze_body :: "'w globals \<Rightarrow> CodePayload \<Rightarrow> 'w \<Rightarrow> ('w, response) step" where
  "analyze_body g payload w =
     then_step (scoring g payload w) (\<lambda>status w1.
       then_step (dispatch g payload (prompt status (code payload)) w1) (\<lambda>ai_text w2.
         (Inr \<lparr>security_score = status, analysis = ai_text\<rparr>, [], w2)))"

text \<open>
  The handler: \<^verbatim>\<open>except HTTPException: raise\<close>, then \<^verbatim>\<open>except Exception as e\<close>, which logs and
  returns the dict with \<^verbatim>\<open>"error"\<close>.
\<close>

definition analyze_code :: "'w globals \<Rightarrow> CodePayload \<Rightarrow> 'w \<Rightarrow> ('w, response) step" where
  "analyze_code g payload w =
     (case analyze_body g payload w of
        (Inr r, ev, w') \<Rightarrow> (Inr r, ev, w')
      | (Inl (HTTPException c d), ev, w') \<Rightarrow> (Inl (HTTPException c d), ev, w')
      | (Inl (PyException k msg), ev, w') \<Rightarrow>
          (Inr \<lparr>security_score = ''error'', analysis = PyStr (''Backend Error: '' @ msg)\<rparr>,
           ev @ [LogException ''Error during analysis: %s'' (Some (PyException k msg))], w'))"

text \<open>
  The status the framework answers with: 200 for a returned dict, the exception's own status
  for an \<^verbatim>\<open>HTTPException\<close>, 500 for any other exception that leaves the handler.
\<close>

fun http_status :: "exn + response \<Rightarrow> nat" where
  "http_status (Inr r) = 200"
| "http_status (Inl (HTTPException c d)) = c"
| "http_status (Inl (PyException k msg)) = 500"

text \<open>Which events are calls of a provider client, and of the scanner.\<close>

fun is_groq_call :: "event \<Rightarrow> bool" where
  "is_groq_call (GroqCall ms m) = True"
| "is_groq_call e = False"

fun is_gemini_call :: "event \<Rightarrow> bool" where
  "is_gemini_call (GeminiCall m c) = True"
| "is_gemini_call e = False"

fun is_scanner_call :: "event \<Rightarrow> bool" where
  "is_scanner_call (ScannerCall s) = True"
| "is_scanner_call e = False"

text \<open>Which events are calls of the constructors run at startup.\<close>

fun is_pipeline_call :: "event \<Rightarrow> bool" where
  "is_pipeline_call (PipelineCall t m) = True"
| "is_pipeline_call e = False"

fun is_genai_client_call :: "event \<Rightarrow> bool" where
  "is_genai_client_call (GenaiClientCall k) = True"
| "is_genai_client_call e = False"

fun is_groq_ctor_call :: "event \<Rightarrow> bool" where
  "is_groq_ctor_call (GroqCtorCall k) = True"
| "is_groq_ctor_call e = False"



section \<open>Deterministic handles\<close>

text \<open>
  An external call is deterministic when what it returns does not depend on the world it runs
  in; the handles are deterministic when every call of every handle that is present is.
\<close>

definition deterministic :: "('w, 'a) ext \<Rightarrow> bool" where
  "deterministic f = (\<forall>w1 w2. fst (f w1) = fst (f w2))"

definition deterministic_handles :: "'w globals \<Rightarrow> bool" where
  "deterministic_handles g =
     ((case security_scanner g of None \<Rightarrow> True | Some sc \<Rightarrow> \<forall>s. deterministic (sc s)) \<and>
      (case gemini_client g of None \<Rightarrow> True | Some c \<Rightarrow> \<forall>m p. deterministic (c m p)) \<and>
      (case groq_client g of None \<Rightarrow> True | Some c \<Rightarrow> \<forall>ms m. deterministic (c ms m)))"

section \<open>Test doubles\<close>

text \<open>
  Stub handles over a world that counts the external calls made so far. They are the concrete
  inputs at which the theorems below are instantiated.
\<close>

definition stub_gemini :: "nat gemini" where
  "stub_gemini m c w =
     (Inr (Obj ''GenerateContentResponse'' [(''text'', PyStr ''OK'')] ''response''), Suc w)"

definition stub_scanner_raises :: "nat scanner" where
  "stub_scanner_raises s w = (Inl (PyException ''RuntimeError'' ''model failed''), Suc w)"

definition stub_groq :: "nat groq" where
  "stub_groq ms m w =
     (Inr (Obj ''ChatCompletion''
             [(''choices'',
               PyList [PyObj (Obj ''Choice''
                 [(''message'',
                   PyObj (Obj ''ChatCompletionMessage'' [(''content'', PyStr ''OK'')]
                            ''ChatCompletionMessage(content=OK)''))]
                 ''Choice(index=0)'')])]
             ''ChatCompletion(id=1)''), Suc w)"

definition stub_gemini_raises :: "nat gemini" where
  "stub_gemini_raises m c w = (Inl (PyException ''ConnectionError'' ''network down''), Suc w)"

definition stub_scanner :: "string \<Rightarrow> nat scanner" where
  "stub_scanner label s w = (Inr (PyList [PyDict [(''label'', PyStr label)]]), Suc w)"

text \<open>Scanners whose result has no first element, and whose first element is not a dict.\<close>

definition stub_scanner_empty :: "nat scanner" where
  "stub_scanner_empty s w = (Inr (PyList []), Suc w)"

definition stub_scanner_no_dict :: "nat scanner" where
  "stub_scanner_no_dict s w = (Inr (PyList [PyStr ''LABEL_1'']), Suc w)"

definition stub_groq_no_content :: "nat groq" where
  "stub_groq_no_content ms m w =
     (Inr (Obj ''ChatCompletion''
             [(''choices'',
               PyList [PyObj (Obj ''Choice''
                 [(''message'',
                   PyObj (Obj ''ChatCompletionMessage'' [(''role'', PyStr ''assistant'')]
                            ''ChatCompletionMessage(role=assistant)''))]
                 ''Choice(index=0)'')])]
             ''ChatCompletion(id=1)''), Suc w)"

definition stub_gemini_no_text :: "nat gemini" where
  "stub_gemini_no_text m c w =
     (Inr (Obj ''GenerateContentResponse'' [(''candidates'', PyList [])]
             ''GenerateContentResponse(candidates=[])''), Suc w)"

definition stub_gemini_echo_world :: "nat gemini" where
  "stub_gemini_echo_world m c w =
     (Inr (Obj ''GenerateContentResponse''
             [(''text'', PyStr (if even w then ''A'' else ''B''))] ''response''), Suc w)"

text \<open>
  Runtimes for startup: everything available, nothing available, the SDKs without usable keys
  (one key unset, one empty), and constructors that raise.
\<close>

definition stub_runtime :: "nat runtime" where
  "stub_runtime =
     \<lparr>pipeline = Some (\<lambda>task m w. (Inr (stub_scanner ''LABEL_1''), Suc w)),
      genai = Some (\<lambda>key w. (Inr stub_gemini, Suc w)),
      Groq = Some (\<lambda>key w. (Inr stub_groq, Suc w)),
      getenv = map_of [(''GEMINI_API_KEY'', ''key-1''), (''GROQ_API_KEY'', ''key-2'')]\<rparr>"

definition stub_runtime_missing :: "nat runtime" where
  "stub_runtime_missing =
     \<lparr>pipeline = None, genai = None, Groq = None, getenv = (\<lambda>name. None)\<rparr>"

definition stub_runtime_no_keys :: "nat runtime" where
  "stub_runtime_no_keys = stub_runtime\<lparr>getenv := map_of [(''GROQ_API_KEY'', [])]\<rparr>"

definition stub_runtime_throwing :: "nat runtime" where
  "stub_runtime_throwing =
     stub_runtime
       \<lparr>genai := Some (\<lambda>key w. (Inl (PyException ''ValueError'' ''bad key''), Suc w)),
        Groq := Some (\<lambda>key w. (Inl (PyException ''GroqError'' ''bad key''), Suc w))\<rparr>"

section \<open>Properties of the steps\<close>

lemmas handler_defs =
  analyze_code_def analyze_body_def then_step_def scoring_def scan_try_def dispatch_def
  groq_text_def gemini_text_def attribute_error_def

lemmas startup_defs =
  lifespan_startup_def then_step_def init_scanner_def init_gemini_def init_groq_def
  initial_globals_def

lemmas runtime_defs =
  stub_runtime_def stub_runtime_missing_def stub_runtime_no_keys_def stub_runtime_throwing_def

lemmas stub_defs =
  stub_gemini_def stub_groq_def stub_gemini_raises_def stub_scanner_def stub_scanner_raises_def
  stub_groq_no_content_def stub_gemini_no_text_def stub_gemini_echo_world_def
  stub_scanner_empty_def stub_scanner_no_dict_def

lemma and_then_Inr_iff:
  "and_then r f = Inr y \<longleftrightarrow> (\<exists>x. r = Inr x \<and> f x = Inr y)"
  by (cases r) auto

lemma and_then_Inl_iff:
  "and_then r f = Inl e \<longleftrightarrow> r = Inl e \<or> (\<exists>x. r = Inr x \<and> f x = Inl e)"
  by (cases r) auto

lemma scan_try_verdict:
  assumes "fst (scan_try sc payload w) = Inr s"
  shows "s = ''insecure'' \<or> s = ''secure''"
  using assms
  by (auto simp: scan_try_def and_then_Inr_iff split: prod.splits if_splits)

lemma scan_try_events:
  "scan_try sc payload w = (r, ev, w') \<Longrightarrow> ev = [ScannerCall (take 512 (code payload))]"
  by (auto simp: scan_try_def split: prod.splits)

lemma scoring_cases:
  "\<exists>s ev w'. scoring g payload w = (Inr s, ev, w') \<and>
     (s = ''unknown'' \<or> s = ''insecure'' \<or> s = ''secure'')"
proof (cases "security_scanner g")
  case None
  then show ?thesis by (simp add: scoring_def)
next
  case (Some sc)
  show ?thesis
  proof (cases "code payload = []")
    case True
    with Some show ?thesis by (simp add: scoring_def)
  next
    case False
    obtain r ev w' where st: "scan_try sc payload w = (r, ev, w')"
      by (cases "scan_try sc payload w") auto
    show ?thesis
    proof (cases r)
      case (Inl e)
      with Some False st show ?thesis by (simp add: scoring_def)
    next
      case (Inr s)
      with st have "fst (scan_try sc payload w) = Inr s" by simp
      then have "s = ''insecure'' \<or> s = ''secure''" by (rule scan_try_verdict)
      with Some False st Inr show ?thesis by (auto simp: scoring_def)
    qed
  qed
qed

lemma scoring_events:
  "fst (snd (scoring g payload w)) =
     (case security_scanner g of
        None \<Rightarrow> []
      | Some sc \<Rightarrow>
          if code payload = [] then []
          else (case fst (scan_try sc payload w) of
                  Inr s \<Rightarrow> [ScannerCall (take 512 (code payload))]
                | Inl e \<Rightarrow> [ScannerCall (take 512 (code payload)),
                            LogException ''Security scanner failed during analysis'' None]))"
  by (auto simp: scoring_def split: option.splits prod.splits sum.splits
        dest: scan_try_events)

lemma scoring_no_provider_call:
  "filter is_groq_call (fst (snd (scoring g payload w))) = [] \<and>
   filter is_gemini_call (fst (snd (scoring g payload w))) = []"
  by (simp add: scoring_events split: option.splits sum.splits)


lemma scan_try_raises:
  assumes "sc (take 512 (code payload)) w = (r, w')"
    and "and_then r (\<lambda>hf_result.
           and_then (py_getitem0 hf_result) (\<lambda>first.
             py_get first ''label'' (PyStr []))) = Inl e"
  shows "fst (scan_try sc payload w) = Inl e"
  using assms
  by (auto simp: scan_try_def and_then_Inl_iff)

lemma scoring_raise_unknown:
  assumes "security_scanner g = Some sc" and "code payload \<noteq> []"
    and "fst (scan_try sc payload w) = Inl e"
  shows "fst (scoring g payload w) = Inr ''unknown''"
  using assms
  by (cases "scan_try sc payload w") (auto simp: scoring_def)

lemma analyze_code_unfold:
  assumes "scoring g payload w = (Inr status, ev1, w1)"
    and "dispatch g payload (prompt status (code payload)) w1 = (r, ev2, w2)"
  shows "analyze_code g payload w =
     (case r of
        Inr t \<Rightarrow> (Inr \<lparr>security_score = status, analysis = t\<rparr>, ev1 @ ev2, w2)
      | Inl (HTTPException c d) \<Rightarrow> (Inl (HTTPException c d), ev1 @ ev2, w2)
      | Inl (PyException k msg) \<Rightarrow>
          (Inr \<lparr>security_score = ''error'', analysis = PyStr (''Backend Error: '' @ msg)\<rparr>,
           ev1 @ ev2 @ [LogException ''Error during analysis: %s'' (Some (PyException k msg))],
           w2))"
  using assms
  by (simp add: analyze_code_def analyze_body_def then_step_def split: sum.splits exn.splits)

lemma analyze_code_events:
  assumes "scoring g payload w = (Inr status, ev1, w1)"
    and "dispatch g payload (prompt status (code payload)) w1 = (r, ev2, w2)"
  shows "filter is_groq_call (fst (snd (analyze_code g payload w))) = filter is_groq_call ev2"
    and "filter is_gemini_call (fst (snd (analyze_code g payload w))) = filter is_gemini_call ev2"
    and "filter is_scanner_call (fst (snd (analyze_code g payload w))) = filter is_scanner_call ev1"
proof -
  have a: "filter is_groq_call ev1 = []" "filter is_gemini_call ev1 = []"
    using scoring_no_provider_call [of g payload w] assms(1) by simp_all
  have b: "filter is_scanner_call ev2 = []"
    using assms(2) by (auto simp: dispatch_def split: if_splits option.splits prod.splits)
  show "filter is_groq_call (fst (snd (analyze_code g payload w))) = filter is_groq_call ev2"
    using a by (simp add: analyze_code_unfold [OF assms] split: sum.splits exn.splits)
  show "filter is_gemini_call (fst (snd (analyze_code g payload w))) = filter is_gemini_call ev2"
    using a by (simp add: analyze_code_unfold [OF assms] split: sum.splits exn.splits)
  show "filter is_scanner_call (fst (snd (analyze_code g payload w))) = filter is_scanner_call ev1"
    using b by (simp add: analyze_code_unfold [OF assms] split: sum.splits exn.splits)
qed


section \<open>Routing\<close>



text \<open>
  C2. When the handle selected by \<^verbatim>\<open>payload.model\<close> is \<^verbatim>\<open>None\<close>, the handler raises
  \<^verbatim>\<open>HTTPException(503)\<close>, which leaves the handler as an exception (HTTP status 503) and not
  as a returned dict; no provider client is called, so no analysis text is returned.
\<close>

theorem analyze_code_unavailable:
  assumes "if model payload = ''groq'' then groq_client g = None else gemini_client g = None"
  shows "fst (analyze_code g payload w) =
           Inl (HTTPException 503
                  (if model payload = ''groq'' then ''Groq client not available''
                   else ''Gemini client not available'')) \<and>
         http_status (fst (analyze_code g payload w)) = 503 \<and>
         filter is_groq_call (fst (snd (analyze_code g payload w))) = [] \<and>
         filter is_gemini_call (fst (snd (analyze_code g payload w))) = []"
proof -
  obtain status ev1 w1 where sc: "scoring g payload w = (Inr status, ev1, w1)"
    using scoring_cases [of g payload w] by blast
  obtain r ev2 w2 where di: "dispatch g payload (prompt status (code payload)) w1 = (r, ev2, w2)"
    by (cases "dispatch g payload (prompt status (code payload)) w1") auto
  have r: "r = Inl (HTTPException 503
                  (if model payload = ''groq'' then ''Groq client not available''
                   else ''Gemini client not available''))" and ev2: "ev2 = []"
    using di assms by (auto simp: dispatch_def split: if_splits)
  have res: "fst (analyze_code g payload w) =
      Inl (HTTPException 503
             (if model payload = ''groq'' then ''Groq client not available''
              else ''Gemini client not available''))"
    by (simp add: analyze_code_unfold [OF sc di] r)
  have calls: "filter is_groq_call (fst (snd (analyze_code g payload w))) = []"
    "filter is_gemini_call (fst (snd (analyze_code g payload w))) = []"
    using analyze_code_events [OF sc di] ev2 by simp_all
  show ?thesis
    using res calls by simp
qed

theorem analyze_code_unavailable_witness:
  "groq_client \<lparr>security_scanner = None, gemini_client = Some stub_gemini,
                groq_client = (None :: nat groq option)\<rparr> = None \<and>
   analyze_code
     \<lparr>security_scanner = None, gemini_client = Some stub_gemini, groq_client = None\<rparr>
     \<lparr>code = ''x=1'', model = ''groq''\<rparr> (0::nat) =
     (Inl (HTTPException 503 ''Groq client not available''), [], 0)"
  using analyze_code_unavailable
      [of "\<lparr>code = ''x=1'', model = ''groq''\<rparr>"
          "\<lparr>security_scanner = None, gemini_client = Some stub_gemini, groq_client = None\<rparr>"
          "0::nat"]
  by (simp add: handler_defs)

section \<open>Failures\<close>

text \<open>
  An exception raised by the scanner never reaches the outer \<^verbatim>\<open>except\<close>: the scoring step has
  its own handler. Here the scanner raises, the request is answered with the provider's text and
  \<^verbatim>\<open>"unknown"\<close>, and the body is not the one with \<^verbatim>\<open>"error"\<close>.
\<close>

theorem scoring_exception_counterexample:
  "fst (scan_try stub_scanner_raises \<lparr>code = ''x=1'', model = ''gemini''\<rparr> (0::nat)) =
     Inl (PyException ''RuntimeError'' ''model failed'') \<and>
   fst (analyze_code
     \<lparr>security_scanner = Some stub_scanner_raises, gemini_client = Some stub_gemini,
      groq_client = None\<rparr>
     \<lparr>code = ''x=1'', model = ''gemini''\<rparr> (0::nat)) =
     Inr \<lparr>security_score = ''unknown'', analysis = PyStr ''OK''\<rparr>"
  by (simp add: handler_defs stub_defs)

text \<open>
  The outer handler re-raises every \<^verbatim>\<open>HTTPException\<close>, whoever raised it: one raised by a
  provider client leaves the handler with its own status.
\<close>

lemma provider_http_exception_propagates:
  "fst (analyze_code
     \<lparr>security_scanner = None,
      gemini_client = Some (\<lambda>m c w. (Inl (HTTPException 429 ''quota''), w)),
      groq_client = None\<rparr>
     \<lparr>code = ''x=1'', model = ''gemini''\<rparr> (0::nat)) = Inl (HTTPException 429 ''quota'')"
  by (simp add: handler_defs)

text \<open>
  C3, as the code has it. The scoring step always returns a verdict, and the verdict is
  \<^verbatim>\<open>"unknown"\<close> whenever anything in its \<^verbatim>\<open>try\<close> body raises: the scanner call, the read
  \<^verbatim>\<open>hf_result[0]\<close>, or the read \<^verbatim>\<open>.get('label', '')\<close>. Any exception other than an
  \<^verbatim>\<open>HTTPException\<close> that the dispatch step raises (the provider call, or reading the text out
  of its result) is caught: the handler returns, with HTTP status 200, the dict whose
  \<^verbatim>\<open>security_score\<close> is \<^verbatim>\<open>"error"\<close> and whose \<^verbatim>\<open>analysis\<close> is the non-empty string
  \<^verbatim>\<open>"Backend Error: "\<close> followed by \<^verbatim>\<open>str(e)\<close>.
\<close>

theorem analyze_code_unexpected_failure:
  "\<exists>status ev1 w1. scoring g payload w = (Inr status, ev1, w1) \<and>
     (\<forall>sc e w'. security_scanner g = Some sc \<and> code payload \<noteq> [] \<and>
        sc (take 512 (code payload)) w = (Inl e, w') \<longrightarrow> status = ''unknown'') \<and>
     (\<forall>sc hf_result e w'. security_scanner g = Some sc \<and> code payload \<noteq> [] \<and>
        sc (take 512 (code payload)) w = (Inr hf_result, w') \<and>
        py_getitem0 hf_result = Inl e \<longrightarrow> status = ''unknown'') \<and>
     (\<forall>sc hf_result first e w'. security_scanner g = Some sc \<and> code payload \<noteq> [] \<and>
        sc (take 512 (code payload)) w = (Inr hf_result, w') \<and>
        py_getitem0 hf_result = Inr first \<and>
        py_get first ''label'' (PyStr []) = Inl e \<longrightarrow> status = ''unknown'') \<and>
     (\<forall>k msg.
        fst (dispatch g payload (prompt status (code payload)) w1) = Inl (PyException k msg) \<longrightarrow>
        fst (analyze_code g payload w) =
          Inr \<lparr>security_score = ''error'', analysis = PyStr (''Backend Error: '' @ msg)\<rparr> \<and>
        http_status (fst (analyze_code g payload w)) = 200 \<and>
        ''Backend Error: '' @ msg \<noteq> [])"
proof -
  obtain status ev1 w1 where sc: "scoring g payload w = (Inr status, ev1, w1)"
    using scoring_cases [of g payload w] by blast
  obtain r ev2 w2 where di: "dispatch g payload (prompt status (code payload)) w1 = (r, ev2, w2)"
    by (cases "dispatch g payload (prompt status (code payload)) w1") auto
  have u: "\<And>s e. security_scanner g = Some s \<Longrightarrow> code payload \<noteq> [] \<Longrightarrow>
      fst (scan_try s payload w) = Inl e \<Longrightarrow> status = ''unknown''"
    using scoring_raise_unknown [of g _ payload w] sc by simp
  have a: "\<forall>s e w'. security_scanner g = Some s \<and> code payload \<noteq> [] \<and>
        s (take 512 (code payload)) w = (Inl e, w') \<longrightarrow> status = ''unknown''"
  proof (intro allI impI)
    fix s e w'
    assume h: "security_scanner g = Some s \<and> code payload \<noteq> [] \<and>
        s (take 512 (code payload)) w = (Inl e, w')"
    then have "fst (scan_try s payload w) = Inl e"
      using scan_try_raises [of s payload w "Inl e" w' e] by simp
    with h show "status = ''unknown''" using u by blast
  qed
  have b: "\<forall>s hf_result e w'. security_scanner g = Some s \<and> code payload \<noteq> [] \<and>
        s (take 512 (code payload)) w = (Inr hf_result, w') \<and>
        py_getitem0 hf_result = Inl e \<longrightarrow> status = ''unknown''"
  proof (intro allI impI)
    fix s hf_result e w'
    assume h: "security_scanner g = Some s \<and> code payload \<noteq> [] \<and>
        s (take 512 (code payload)) w = (Inr hf_result, w') \<and>
        py_getitem0 hf_result = Inl e"
    then have "fst (scan_try s payload w) = Inl e"
      using scan_try_raises [of s payload w "Inr hf_result" w' e] by simp
    with h show "status = ''unknown''" using u by blast
  qed
  have c: "\<forall>s hf_result first e w'. security_scanner g = Some s \<and> code payload \<noteq> [] \<and>
        s (take 512 (code payload)) w = (Inr hf_result, w') \<and>
        py_getitem0 hf_result = Inr first \<and>
        py_get first ''label'' (PyStr []) = Inl e \<longrightarrow> status = ''unknown''"
  proof (intro allI impI)
    fix s hf_result first e w'
    assume h: "security_scanner g = Some s \<and> code payload \<noteq> [] \<and>
        s (take 512 (code payload)) w = (Inr hf_result, w') \<and>
        py_getitem0 hf_result = Inr first \<and>
        py_get first ''label'' (PyStr []) = Inl e"
    then have "fst (scan_try s payload w) = Inl e"
      using scan_try_raises [of s payload w "Inr hf_result" w' e] by simp
    with h show "status = ''unknown''" using u by blast
  qed
  have d: "\<forall>k msg.
        fst (dispatch g payload (prompt status (code payload)) w1) = Inl (PyException k msg) \<longrightarrow>
        fst (analyze_code g payload w) =
          Inr \<lparr>security_score = ''error'', analysis = PyStr (''Backend Error: '' @ msg)\<rparr> \<and>
        http_status (fst (analyze_code g payload w)) = 200 \<and>
        ''Backend Error: '' @ msg \<noteq> []"
    by (simp add: analyze_code_unfold [OF sc di] di)
  from sc a b c d show ?thesis by blast
qed

theorem analyze_code_unexpected_failure_witness:
  "analyze_code
     \<lparr>security_scanner = Some stub_scanner_raises, gemini_client = Some stub_gemini_raises,
      groq_client = None\<rparr>
     \<lparr>code = ''x=1'', model = ''gemini''\<rparr> (0::nat) =
     (Inr \<lparr>security_score = ''error'', analysis = PyStr ''Backend Error: network down''\<rparr>,
      [ScannerCall ''x=1'',
       LogException ''Security scanner failed during analysis'' None,
       GeminiCall ''gemini-2.0-flash'' (prompt ''unknown'' ''x=1''),
       LogException ''Error during analysis: %s''
         (Some (PyException ''ConnectionError'' ''network down''))], 2) \<and>
   py_getitem0 (PyList []) = Inl (PyException ''IndexError'' ''list index out of range'') \<and>
   analyze_code
     \<lparr>security_scanner = Some stub_scanner_empty, gemini_client = Some stub_gemini,
      groq_client = None\<rparr>
     \<lparr>code = ''x=1'', model = ''gemini''\<rparr> (0::nat) =
     (Inr \<lparr>security_score = ''unknown'', analysis = PyStr ''OK''\<rparr>,
      [ScannerCall ''x=1'',
       LogException ''Security scanner failed during analysis'' None,
       GeminiCall ''gemini-2.0-flash'' (prompt ''unknown'' ''x=1'')], 2) \<and>
   py_getitem0 (PyList [PyStr ''LABEL_1'']) = Inr (PyStr ''LABEL_1'') \<and>
   py_get (PyStr ''LABEL_1'') ''label'' (PyStr []) =
     Inl (attribute_error (PyStr ''LABEL_1'') ''get'') \<and>
   analyze_code
     \<lparr>security_scanner = Some stub_scanner_no_dict, gemini_client = Some stub_gemini,
      groq_client = None\<rparr>
     \<lparr>code = ''x=1'', model = ''gemini''\<rparr> (0::nat) =
     (Inr \<lparr>security_score = ''unknown'', analysis = PyStr ''OK''\<rparr>,
      [ScannerCall ''x=1'',
       LogException ''Security scanner failed during analysis'' None,
       GeminiCall ''gemini-2.0-flash'' (prompt ''unknown'' ''x=1'')], 2)"
  using analyze_code_unexpected_failure
    [of "\<lparr>security_scanner = Some stub_scanner_raises,
          gemini_client = Some stub_gemini_raises, groq_client = None\<rparr>"
        "\<lparr>code = ''x=1'', model = ''gemini''\<rparr>" "0::nat"]
    analyze_code_unexpected_failure
    [of "\<lparr>security_scanner = Some stub_scanner_empty,
          gemini_client = Some stub_gemini, groq_client = None\<rparr>"
        "\<lparr>code = ''x=1'', model = ''gemini''\<rparr>" "0::nat"]
    analyze_code_unexpected_failure
    [of "\<lparr>security_scanner = Some stub_scanner_no_dict,
          gemini_client = Some stub_gemini, groq_client = None\<rparr>"
        "\<lparr>code = ''x=1'', model = ''gemini''\<rparr>" "0::nat"]
  by (simp add: handler_defs stub_defs)

section \<open>Scoring\<close>

lemma scan_try_success:
  assumes "scanner (take 512 (code payload)) w = (Inr hf_result, w1)"
    and "py_getitem0 hf_result = Inr first"
    and "py_get first ''label'' (PyStr []) = Inr raw_label"
  shows "scan_try scanner payload w =
     (Inr (if raw_label = PyStr ''LABEL_1'' then ''insecure'' else ''secure''),
      [ScannerCall (take 512 (code payload))], w1)"
  using assms by (simp add: scan_try_def)

text \<open>
  C4. When the scanner handle is present, the code is non-empty and the scanner call and the
  reading of its label (\<^verbatim>\<open>hf_result[0].get('label', '')\<close>) succeed, the scanner is called once,
  on \<^verbatim>\<open>payload.code[:512]\<close> (a prefix of the code of at most 512 characters), and the verdict
  is \<^verbatim>\<open>"insecure"\<close> when the label equals \<^verbatim>\<open>"LABEL_1"\<close> and \<^verbatim>\<open>"secure"\<close> for every other label;
  whenever the dispatch step then returns a text, the returned dict carries this verdict as
  its \<^verbatim>\<open>security_score\<close>.
\<close>

theorem scoring_verdict_from_label:
  assumes "security_scanner g = Some scanner"
    and "code payload \<noteq> []"
    and "scanner (take 512 (code payload)) w = (Inr hf_result, w1)"
    and "py_getitem0 hf_result = Inr first"
    and "py_get first ''label'' (PyStr []) = Inr raw_label"
  shows "scoring g payload w =
           (Inr (if raw_label = PyStr ''LABEL_1'' then ''insecure'' else ''secure''),
            [ScannerCall (take 512 (code payload))], w1) \<and>
         filter is_scanner_call (fst (snd (analyze_code g payload w))) =
           [ScannerCall (take 512 (code payload))] \<and>
         length (take 512 (code payload)) \<le> 512 \<and>
         prefix (take 512 (code payload)) (code payload) \<and>
         (\<forall>t. fst (dispatch g payload
                    (prompt (if raw_label = PyStr ''LABEL_1'' then ''insecure'' else ''secure'')
                       (code payload)) w1) = Inr t \<longrightarrow>
              fst (analyze_code g payload w) =
                Inr \<lparr>security_score =
                       (if raw_label = PyStr ''LABEL_1'' then ''insecure'' else ''secure''),
                     analysis = t\<rparr>)"
proof -
  let ?v = "if raw_label = PyStr ''LABEL_1'' then ''insecure'' else ''secure''"
  have sc: "scoring g payload w = (Inr ?v, [ScannerCall (take 512 (code payload))], w1)"
    using assms scan_try_success [of scanner payload w hf_result w1 first raw_label]
    by (simp add: scoring_def)
  obtain r ev2 w2 where di: "dispatch g payload (prompt ?v (code payload)) w1 = (r, ev2, w2)"
    by (cases "dispatch g payload (prompt ?v (code payload)) w1") auto
  have calls: "filter is_scanner_call (fst (snd (analyze_code g payload w))) =
           [ScannerCall (take 512 (code payload))]"
    using analyze_code_events(3) [OF sc di] by simp
  have resp: "\<forall>t. fst (dispatch g payload (prompt ?v (code payload)) w1) = Inr t \<longrightarrow>
              fst (analyze_code g payload w) = Inr \<lparr>security_score = ?v, analysis = t\<rparr>"
    by (simp add: analyze_code_unfold [OF sc di] di)
  have pre: "prefix (take 512 (code payload)) (code payload)"
    by (rule take_is_prefix)
  show ?thesis
    using sc calls resp pre by simp
qed

theorem scoring_verdict_from_label_witness:
  "analyze_code
     \<lparr>security_scanner = Some (stub_scanner ''LABEL_1''), gemini_client = Some stub_gemini,
      groq_client = None\<rparr>
     \<lparr>code = ''x=1'', model = ''gemini''\<rparr> (0::nat) =
     (Inr \<lparr>security_score = ''insecure'', analysis = PyStr ''OK''\<rparr>,
      [ScannerCall ''x=1'', GeminiCall ''gemini-2.0-flash'' (prompt ''insecure'' ''x=1'')], 2) \<and>
   analyze_code
     \<lparr>security_scanner = Some (stub_scanner ''LABEL_0''), gemini_client = Some stub_gemini,
      groq_client = None\<rparr>
     \<lparr>code = ''x=1'', model = ''gemini''\<rparr> (0::nat) =
     (Inr \<lparr>security_score = ''secure'', analysis = PyStr ''OK''\<rparr>,
      [ScannerCall ''x=1'', GeminiCall ''gemini-2.0-flash'' (prompt ''secure'' ''x=1'')], 2)"
proof -
  let ?p = "\<lparr>code = ''x=1'', model = ''gemini''\<rparr>"
  let ?g = "\<lambda>l. \<lparr>security_scanner = Some (stub_scanner l), gemini_client = Some stub_gemini,
      groq_client = None\<rparr>"
  have h1: "\<And>l. security_scanner (?g l) = Some (stub_scanner l)" by simp
  have h2: "code ?p \<noteq> []" by simp
  have h3: "\<And>l. stub_scanner l (take 512 (code ?p)) (0::nat) =
     (Inr (PyList [PyDict [(''label'', PyStr l)]]), 1)"
    by (simp add: stub_defs)
  have h4: "\<And>l. py_getitem0 (PyList [PyDict [(''label'', PyStr l)]]) =
     Inr (PyDict [(''label'', PyStr l)])" by simp
  have h5: "\<And>l. py_get (PyDict [(''label'', PyStr l)]) ''label'' (PyStr []) = Inr (PyStr l)"
    by simp
  show ?thesis
    using scoring_verdict_from_label [OF h1 h2 h3 h4 h5, of "''LABEL_1''"]
      scoring_verdict_from_label [OF h1 h2 h3 h4 h5, of "''LABEL_0''"]
    by (simp add: handler_defs stub_defs)
qed

text \<open>
  C5. When the scanner handle is absent, or the code is empty, or the scanner call raises, the
  scoring step returns \<^verbatim>\<open>"unknown"\<close> (it raises nothing), and whenever the dispatch step then
  returns a text the handler returns, with HTTP status 200, the dict with \<^verbatim>\<open>"unknown"\<close> and that
  text.
\<close>

theorem scoring_unknown_fallback:
  assumes "security_scanner g = None \<or> code payload = [] \<or>
           (\<exists>scanner e w'. security_scanner g = Some scanner \<and>
               scanner (take 512 (code payload)) w = (Inl e, w'))"
  shows "\<exists>ev1 w1. scoring g payload w = (Inr ''unknown'', ev1, w1) \<and>
           (\<forall>t. fst (dispatch g payload (prompt ''unknown'' (code payload)) w1) = Inr t \<longrightarrow>
                fst (analyze_code g payload w) =
                  Inr \<lparr>security_score = ''unknown'', analysis = t\<rparr> \<and>
                http_status (fst (analyze_code g payload w)) = 200)"
proof -
  have "\<exists>ev1 w1. scoring g payload w = (Inr ''unknown'', ev1, w1)"
    using assms
    by (auto simp: scoring_def scan_try_def split: option.splits prod.splits sum.splits)
  then obtain ev1 w1 where sc: "scoring g payload w = (Inr ''unknown'', ev1, w1)" by blast
  obtain r ev2 w2 where
    di: "dispatch g payload (prompt ''unknown'' (code payload)) w1 = (r, ev2, w2)"
    by (cases "dispatch g payload (prompt ''unknown'' (code payload)) w1") auto
  have "\<forall>t. fst (dispatch g payload (prompt ''unknown'' (code payload)) w1) = Inr t \<longrightarrow>
                fst (analyze_code g payload w) =
                  Inr \<lparr>security_score = ''unknown'', analysis = t\<rparr> \<and>
                http_status (fst (analyze_code g payload w)) = 200"
    by (simp add: analyze_code_unfold [OF sc di] di)
  with sc show ?thesis by blast
qed

theorem scoring_unknown_fallback_witness:
  "code \<lparr>code = [], model = ''gemini''\<rparr> = [] \<and>
   fst (analyze_code
     \<lparr>security_scanner = Some (stub_scanner ''LABEL_1''), gemini_client = Some stub_gemini,
      groq_client = None\<rparr>
     \<lparr>code = [], model = ''gemini''\<rparr> (0::nat)) =
     Inr \<lparr>security_score = ''unknown'', analysis = PyStr ''OK''\<rparr> \<and>
   http_status (fst (analyze_code
     \<lparr>security_scanner = Some (stub_scanner ''LABEL_1''), gemini_client = Some stub_gemini,
      groq_client = None\<rparr>
     \<lparr>code = [], model = ''gemini''\<rparr> (0::nat))) = 200"
  using scoring_unknown_fallback
    [of "\<lparr>security_scanner = Some (stub_scanner ''LABEL_1''), gemini_client = Some stub_gemini,
          groq_client = None\<rparr>" "\<lparr>code = [], model = ''gemini''\<rparr>" "0::nat"]
  by (simp add: handler_defs stub_defs)

section \<open>Reading the provider's text\<close>

text \<open>
  The Gemini branch reads the text with \<^verbatim>\<open>getattr(response, 'text', str(response))\<close>: a
  response without a \<^verbatim>\<open>text\<close> attribute is answered with its string form.
\<close>

lemma gemini_missing_text_falls_back:
  assumes "model payload \<noteq> ''groq''"
    and "gemini_client g = Some client"
    and "scoring g payload w = (Inr status, ev1, w1)"
    and "client ''gemini-2.0-flash'' (prompt status (code payload)) w1 = (Inr response, w2)"
    and "map_of (attrs response) ''text'' = None"
  shows "fst (analyze_code g payload w) =
           Inr \<lparr>security_score = status, analysis = PyStr (str_form response)\<rparr>"
proof -
  have di: "dispatch g payload (prompt status (code payload)) w1 =
      (Inr (PyStr (str_form response)),
       [GeminiCall ''gemini-2.0-flash'' (prompt status (code payload))], w2)"
    using assms(1,2,4,5) by (simp add: dispatch_def gemini_text_def)
  show ?thesis
    by (simp add: analyze_code_unfold [OF assms(3) di])
qed

text \<open>
  C6. The Groq branch reads \<^verbatim>\<open>chat_completion.choices[0].message.content\<close> with no default.
  With the same request and a response object that lacks its text field, the Gemini branch
  answers with the string form of the response, while the Groq branch answers with the
  \<^verbatim>\<open>"error"\<close> dict made from the \<^verbatim>\<open>AttributeError\<close>.
\<close>

theorem groq_missing_content_is_error:
  "analyze_code
     \<lparr>security_scanner = None, gemini_client = Some stub_gemini_no_text,
      groq_client = Some stub_groq_no_content\<rparr>
     \<lparr>code = ''x=1'', model = ''gemini''\<rparr> (0::nat) =
     (Inr \<lparr>security_score = ''unknown'',
           analysis = PyStr ''GenerateContentResponse(candidates=[])''\<rparr>,
      [GeminiCall ''gemini-2.0-flash'' (prompt ''unknown'' ''x=1'')], 1) \<and>
   fst (analyze_code
     \<lparr>security_scanner = None, gemini_client = Some stub_gemini_no_text,
      groq_client = Some stub_groq_no_content\<rparr>
     \<lparr>code = ''x=1'', model = ''groq''\<rparr> (0::nat)) =
     Inr \<lparr>security_score = ''error'',
          analysis = PyStr (''Backend Error: '' @ [CHR 0x27] @ ''ChatCompletionMessage'' @
            [CHR 0x27] @ '' object has no attribute '' @ [CHR 0x27] @ ''content'' @ [CHR 0x27])\<rparr>"
  by (simp add: handler_defs stub_groq_no_content_def stub_gemini_no_text_def)

section \<open>Startup\<close>

lemma init_scanner_disabled:
  "init_scanner rt g w =
     (Inr g, [LogWarning ''transformers.pipeline not available; security scanner disabled''], w)"
  by (simp add: init_scanner_def)

lemma init_gemini_returns:
  "\<exists>g' ev w'. init_gemini rt g w = (Inr g', ev, w') \<and>
     security_scanner g' = security_scanner g \<and> groq_client g' = groq_client g \<and>
     filter is_pipeline_call ev = [] \<and> filter is_groq_ctor_call ev = [] \<and>
     length (filter is_genai_client_call ev) \<le> 1"
  by (auto simp: init_gemini_def Let_def split: option.splits prod.splits sum.splits)

lemma init_groq_returns:
  "\<exists>g' ev w'. init_groq rt g w = (Inr g', ev, w') \<and>
     security_scanner g' = security_scanner g \<and> gemini_client g' = gemini_client g \<and>
     filter is_pipeline_call ev = [] \<and> filter is_genai_client_call ev = [] \<and>
     length (filter is_groq_ctor_call ev) \<le> 1"
  by (auto simp: init_groq_def Let_def split: option.splits prod.splits sum.splits)

lemma lifespan_startup_unfold:
  assumes "init_gemini rt g w = (Inr g1, ev1, w1)"
    and "init_groq rt g1 w1 = (Inr g2, ev2, w2)"
  shows "lifespan_startup rt g w =
     (Inr g2,
      [LogWarning ''transformers.pipeline not available; security scanner disabled''] @
        ev1 @ ev2, w2)"
  using assms by (simp add: lifespan_startup_def then_step_def init_scanner_disabled)

lemma no_scanner_score:
  assumes "security_scanner g = None"
  shows "(case fst (analyze_code g payload w) of
            Inr r \<Rightarrow> security_score r = ''unknown'' \<or> security_score r = ''error''
          | Inl e \<Rightarrow> True) \<and>
         filter is_scanner_call (fst (snd (analyze_code g payload w))) = []"
proof -
  have sc: "scoring g payload w = (Inr ''unknown'', [], w)"
    using assms by (simp add: scoring_def)
  obtain r ev2 w2 where
    di: "dispatch g payload (prompt ''unknown'' (code payload)) w = (r, ev2, w2)"
    by (cases "dispatch g payload (prompt ''unknown'' (code payload)) w") auto
  have a: "case fst (analyze_code g payload w) of
            Inr r \<Rightarrow> security_score r = ''unknown'' \<or> security_score r = ''error''
          | Inl e \<Rightarrow> True"
    by (simp add: analyze_code_unfold [OF sc di] split: sum.splits exn.splits)
  have b: "filter is_scanner_call (fst (snd (analyze_code g payload w))) = []"
    using analyze_code_events(3) [OF sc di] by simp
  from a b show ?thesis by simp
qed

text \<open>
  C7. Whatever the runtime offers (also when \<^verbatim>\<open>pipeline\<close> was imported), startup from the
  freshly loaded module completes with \<^verbatim>\<open>security_scanner\<close> still \<^verbatim>\<open>None\<close> and without ever
  calling \<^verbatim>\<open>pipeline\<close>. With the handles startup leaves, no request calls the scanner, and every
  dict the handler returns has \<^verbatim>\<open>security_score\<close> equal to \<^verbatim>\<open>"unknown"\<close> or \<^verbatim>\<open>"error"\<close>.
\<close>

theorem scanner_always_disabled:
  "\<exists>g ev w'. lifespan_startup rt initial_globals w = (Inr g, ev, w') \<and>
     security_scanner g = None \<and>
     filter is_pipeline_call ev = [] \<and>
     (\<forall>payload w2.
        (case fst (analyze_code g payload w2) of
           Inr r \<Rightarrow> security_score r = ''unknown'' \<or> security_score r = ''error''
         | Inl e \<Rightarrow> True) \<and>
        filter is_scanner_call (fst (snd (analyze_code g payload w2))) = [])"
proof -
  obtain g1 ev1 w1 where g1: "init_gemini rt initial_globals w = (Inr g1, ev1, w1)"
    "security_scanner g1 = security_scanner (initial_globals :: 'a globals)"
    "filter is_pipeline_call ev1 = []"
    using init_gemini_returns [of rt initial_globals w] by blast
  obtain g2 ev2 w2 where g2: "init_groq rt g1 w1 = (Inr g2, ev2, w2)"
    "security_scanner g2 = security_scanner g1" "filter is_pipeline_call ev2 = []"
    using init_groq_returns [of rt g1 w1] by blast
  have none: "security_scanner g2 = None"
    using g1(2) g2(2) by (simp add: initial_globals_def)
  have "lifespan_startup rt initial_globals w =
     (Inr g2,
      [LogWarning ''transformers.pipeline not available; security scanner disabled''] @
        ev1 @ ev2, w2)"
    by (rule lifespan_startup_unfold [OF g1(1) g2(1)])
  moreover have "filter is_pipeline_call
      ([LogWarning ''transformers.pipeline not available; security scanner disabled''] @
        ev1 @ ev2) = []"
    using g1(3) g2(3) by simp
  ultimately show ?thesis
    using none no_scanner_score [OF none] by blast
qed

theorem scanner_always_disabled_witness:
  "pipeline stub_runtime \<noteq> None \<and>
   lifespan_startup stub_runtime initial_globals (0::nat) =
     (Inr \<lparr>security_scanner = None, gemini_client = Some stub_gemini,
           groq_client = Some stub_groq\<rparr>,
      [LogWarning ''transformers.pipeline not available; security scanner disabled'',
       GenaiClientCall ''key-1'', GroqCtorCall ''key-2''], 2) \<and>
   analyze_code
     \<lparr>security_scanner = None, gemini_client = Some stub_gemini, groq_client = Some stub_groq\<rparr>
     \<lparr>code = ''x=1'', model = ''gemini''\<rparr> (2::nat) =
     (Inr \<lparr>security_score = ''unknown'', analysis = PyStr ''OK''\<rparr>,
      [GeminiCall ''gemini-2.0-flash'' (prompt ''unknown'' ''x=1'')], 3)"
  using scanner_always_disabled [of stub_runtime "0::nat"]
  by (simp add: startup_defs runtime_defs handler_defs stub_defs)

text \<open>
  C8. Startup from the freshly loaded module never raises, for every runtime: it returns the
  handles. When an SDK is missing, or its key is unset or empty, or its constructor raises, the
  corresponding handle is \<^verbatim>\<open>None\<close> and the matching warning or exception line is logged. Each
  constructor is called at most once (no retry). The handler takes the handles as they are
  and returns none, so an absent handle stays absent.
\<close>

theorem lifespan_startup_never_raises:
  "\<exists>g ev w'. lifespan_startup rt initial_globals w = (Inr g, ev, w') \<and>
     (genai rt = None \<longrightarrow>
        gemini_client g = None \<and>
        LogWarning ''google-genai SDK not installed; Gemini client disabled'' \<in> set ev) \<and>
     (genai rt \<noteq> None \<and>
      (getenv rt ''GEMINI_API_KEY'' = None \<or> getenv rt ''GEMINI_API_KEY'' = Some []) \<longrightarrow>
        gemini_client g = None \<and>
        LogWarning ''GEMINI_API_KEY not set; Gemini client disabled'' \<in> set ev) \<and>
     (\<forall>client key e w1.
        genai rt = Some client \<and> getenv rt ''GEMINI_API_KEY'' = Some key \<and> key \<noteq> [] \<and>
        client key w = (Inl e, w1) \<longrightarrow>
        gemini_client g = None \<and>
        LogException ''Failed to initialize Gemini client: %s'' (Some e) \<in> set ev) \<and>
     (Groq rt = None \<longrightarrow>
        groq_client g = None \<and>
        LogWarning ''groq SDK not installed; Groq client disabled'' \<in> set ev) \<and>
     (Groq rt \<noteq> None \<and>
      (getenv rt ''GROQ_API_KEY'' = None \<or> getenv rt ''GROQ_API_KEY'' = Some []) \<longrightarrow>
        groq_client g = None \<and>
        LogWarning ''GROQ_API_KEY not set; Groq client disabled'' \<in> set ev) \<and>
     (\<forall>ctor key e w1.
        Groq rt = Some ctor \<and> getenv rt ''GROQ_API_KEY'' = Some key \<and> key \<noteq> [] \<and>
        ctor key (snd (snd (init_gemini rt initial_globals w))) = (Inl e, w1) \<longrightarrow>
        groq_client g = None \<and>
        LogException ''Failed to initialize Groq client: %s'' (Some e) \<in> set ev) \<and>
     length (filter is_genai_client_call ev) \<le> 1 \<and>
     length (filter is_groq_ctor_call ev) \<le> 1"
  by (auto simp: startup_defs Let_def split: option.splits prod.splits sum.splits)


theorem lifespan_startup_never_raises_witness:
  "genai stub_runtime_missing = None \<and> Groq stub_runtime_missing = None \<and>
   lifespan_startup stub_runtime_missing initial_globals (0::nat) =
     (Inr \<lparr>security_scanner = None, gemini_client = None, groq_client = None\<rparr>,
      [LogWarning ''transformers.pipeline not available; security scanner disabled'',
       LogWarning ''google-genai SDK not installed; Gemini client disabled'',
       LogWarning ''groq SDK not installed; Groq client disabled''], 0) \<and>
   genai stub_runtime_no_keys \<noteq> None \<and> Groq stub_runtime_no_keys \<noteq> None \<and>
   getenv stub_runtime_no_keys ''GEMINI_API_KEY'' = None \<and>
   getenv stub_runtime_no_keys ''GROQ_API_KEY'' = Some [] \<and>
   lifespan_startup stub_runtime_no_keys initial_globals (0::nat) =
     (Inr \<lparr>security_scanner = None, gemini_client = None, groq_client = None\<rparr>,
      [LogWarning ''transformers.pipeline not available; security scanner disabled'',
       LogWarning ''GEMINI_API_KEY not set; Gemini client disabled'',
       LogWarning ''GROQ_API_KEY not set; Groq client disabled''], 0) \<and>
   getenv stub_runtime_throwing ''GEMINI_API_KEY'' = Some ''key-1'' \<and>
   getenv stub_runtime_throwing ''GROQ_API_KEY'' = Some ''key-2'' \<and>
   lifespan_startup stub_runtime_throwing initial_globals (0::nat) =
     (Inr \<lparr>security_scanner = None, gemini_client = None, groq_client = None\<rparr>,
      [LogWarning ''transformers.pipeline not available; security scanner disabled'',
       GenaiClientCall ''key-1'',
       LogException ''Failed to initialize Gemini client: %s''
         (Some (PyException ''ValueError'' ''bad key'')),
       GroqCtorCall ''key-2'',
       LogException ''Failed to initialize Groq client: %s''
         (Some (PyException ''GroqError'' ''bad key''))], 2)"
  using lifespan_startup_never_raises [of stub_runtime_missing "0::nat"]
    lifespan_startup_never_raises [of stub_runtime_no_keys "0::nat"]
    lifespan_startup_never_raises [of stub_runtime_throwing "0::nat"]
  by (simp add: startup_defs runtime_defs)

section \<open>Determinism\<close>

lemma deterministicD:
  "deterministic f \<Longrightarrow> fst (f w1) = fst (f w2)"
  by (simp add: deterministic_def)

lemma scoring_deterministic:
  assumes "deterministic_handles g"
  shows "fst (scoring g payload w1) = fst (scoring g payload w2) \<and>
         fst (snd (scoring g payload w1)) = fst (snd (scoring g payload w2))"
proof (cases "security_scanner g")
  case None
  then show ?thesis by (simp add: scoring_def)
next
  case (Some sc)
  then have "deterministic (sc (take 512 (code payload)))"
    using assms by (simp add: deterministic_handles_def)
  then have "fst (sc (take 512 (code payload)) w1) = fst (sc (take 512 (code payload)) w2)"
    by (rule deterministicD)
  then show ?thesis
    using Some
    by (cases "sc (take 512 (code payload)) w1"; cases "sc (take 512 (code payload)) w2")
       (auto simp: scoring_def scan_try_def split: sum.splits)
qed

lemma dispatch_deterministic:
  assumes "deterministic_handles g"
  shows "fst (dispatch g payload p w1) = fst (dispatch g payload p w2) \<and>
         fst (snd (dispatch g payload p w1)) = fst (snd (dispatch g payload p w2))"
proof (cases "model payload = ''groq''")
  case True
  show ?thesis
  proof (cases "groq_client g")
    case None
    with True show ?thesis by (simp add: dispatch_def)
  next
    case (Some c)
    let ?f = "c [[(''role'', ''user''), (''content'', p)]] ''llama-3.3-70b-versatile''"
    have "deterministic ?f"
      using assms Some by (simp add: deterministic_handles_def)
    then have "fst (?f w1) = fst (?f w2)" by (rule deterministicD)
    then show ?thesis
      using True Some by (cases "?f w1"; cases "?f w2") (simp add: dispatch_def)
  qed
next
  case False
  show ?thesis
  proof (cases "gemini_client g")
    case None
    with False show ?thesis by (simp add: dispatch_def)
  next
    case (Some c)
    let ?f = "c ''gemini-2.0-flash'' p"
    have "deterministic ?f"
      using assms Some by (simp add: deterministic_handles_def)
    then have "fst (?f w1) = fst (?f w2)" by (rule deterministicD)
    then show ?thesis
      using False Some by (cases "?f w1"; cases "?f w2") (simp add: dispatch_def)
  qed
qed

text \<open>
  C9. With deterministic handles, two requests with the same code and model get the same
  outcome (the same dict, in particular the same analysis, or the same exception) and make the
  same calls, whatever the worlds they run in, so also when they run one after the other.
\<close>

theorem analyze_code_deterministic:
  assumes "deterministic_handles g"
    and "code p1 = code p2" and "model p1 = model p2"
  shows "fst (analyze_code g p1 w1) = fst (analyze_code g p2 w2) \<and>
         fst (snd (analyze_code g p1 w1)) = fst (snd (analyze_code g p2 w2))"
proof -
  have p: "p2 = p1" using assms(2,3) by simp
  obtain s1 e1 v1 where a1: "scoring g p1 w1 = (Inr s1, e1, v1)"
    using scoring_cases [of g p1 w1] by blast
  obtain s2 e2 v2 where a2: "scoring g p1 w2 = (Inr s2, e2, v2)"
    using scoring_cases [of g p1 w2] by blast
  have s: "s2 = s1" "e2 = e1"
    using scoring_deterministic [OF assms(1), of p1 w1 w2] a1 a2 by simp_all
  obtain r1 d1 x1 where b1: "dispatch g p1 (prompt s1 (code p1)) v1 = (r1, d1, x1)"
    by (cases "dispatch g p1 (prompt s1 (code p1)) v1") auto
  obtain r2 d2 x2 where b2: "dispatch g p1 (prompt s1 (code p1)) v2 = (r2, d2, x2)"
    by (cases "dispatch g p1 (prompt s1 (code p1)) v2") auto
  have r: "r2 = r1" "d2 = d1"
    using dispatch_deterministic [OF assms(1), of p1 "prompt s1 (code p1)" v1 v2] b1 b2
    by simp_all
  show ?thesis
    unfolding p
    by (simp add: analyze_code_unfold [OF a1 b1]
          analyze_code_unfold [OF a2 [unfolded s] b2 [unfolded r]]
          split: sum.splits exn.splits)
qed

theorem analyze_code_deterministic_witness:
  "deterministic_handles
     \<lparr>security_scanner = Some (stub_scanner ''LABEL_1''), gemini_client = Some stub_gemini,
      groq_client = Some stub_groq\<rparr> \<and>
   fst (analyze_code
     \<lparr>security_scanner = Some (stub_scanner ''LABEL_1''), gemini_client = Some stub_gemini,
      groq_client = Some stub_groq\<rparr>
     \<lparr>code = ''x=1'', model = ''groq''\<rparr> (0::nat)) =
   fst (analyze_code
     \<lparr>security_scanner = Some (stub_scanner ''LABEL_1''), gemini_client = Some stub_gemini,
      groq_client = Some stub_groq\<rparr>
     \<lparr>code = ''x=1'', model = ''groq''\<rparr> (2::nat)) \<and>
   fst (analyze_code
     \<lparr>security_scanner = Some (stub_scanner ''LABEL_1''), gemini_client = Some stub_gemini,
      groq_client = Some stub_groq\<rparr>
     \<lparr>code = ''x=1'', model = ''groq''\<rparr> (2::nat)) =
     Inr \<lparr>security_score = ''insecure'', analysis = PyStr ''OK''\<rparr>"
proof -
  let ?g = "\<lparr>security_scanner = Some (stub_scanner ''LABEL_1''),
      gemini_client = Some stub_gemini, groq_client = Some stub_groq\<rparr>"
  let ?p = "\<lparr>code = ''x=1'', model = ''groq''\<rparr>"
  have h: "deterministic_handles ?g"
    by (simp add: deterministic_handles_def deterministic_def stub_defs)
  have h2: "code ?p = code ?p" "model ?p = model ?p" by simp_all
  have "fst (analyze_code ?g ?p (2::nat)) =
      Inr \<lparr>security_score = ''insecure'', analysis = PyStr ''OK''\<rparr>"
    by (simp add: handler_defs stub_defs)
  then show ?thesis
    using h analyze_code_deterministic [OF h h2, of "0::nat" "2::nat"] by simp
qed

text \<open>
  The hypothesis is needed: a provider whose answer depends on the world gives two different
  answers to the same request.
\<close>

lemma world_reading_provider_differs:
  "fst (analyze_code
     \<lparr>security_scanner = None, gemini_client = Some stub_gemini_echo_world, groq_client = None\<rparr>
     \<lparr>code = ''x=1'', model = ''gemini''\<rparr> (0::nat)) \<noteq>
   fst (analyze_code
     \<lparr>security_scanner = None, gemini_client = Some stub_gemini_echo_world, groq_client = None\<rparr>
     \<lparr>code = ''x=1'', model = ''gemini''\<rparr> (1::nat))"
  by (simp add: handler_defs stub_gemini_echo_world_def)

section \<open>The prompt\<close>











end
